theory Spec2Isabelle
  imports Main "HOL-Library.Word"
begin

section \<open>Data model of \<open>internal/config.go\<close>\<close>

text \<open>
  Go's \<open>uint32\<close> is a 32-bit word: \<open>+\<close> and \<open>*\<close> wrap around, \<open><\<close> and \<open>\<le>\<close> compare
  the unsigned values. A byte slice is a list of 8-bit words. A Go \<open>error\<close> returned by
  an outside collaborator is its message when present, \<open>None\<close> for \<open>nil\<close>.
\<close>

type_synonym uint32 = "32 word"
type_synonym bytes = "8 word list"
type_synonym go_error = "string option"

text \<open>
  \<open>type Mode int\<close> with \<open>ScanFill = 1\<close> and \<open>Append = 2\<close> (the \<open>iota\<close> value 0 is
  skipped). Only equality on modes is used.
\<close>

type_synonym Mode = int

definition ScanFill :: Mode where
  "ScanFill = 1"

definition Append :: Mode where
  "Append = 2"

definition Pubnet :: string where
  "Pubnet = ''pubnet''"

definition Testnet :: string where
  "Testnet = ''testnet''"

definition UserAgent_const :: string where
  "UserAgent_const = ''galexie''"

record StellarCoreConfig =
  Network :: string
  NetworkPassphrase :: string
  HistoryArchiveUrls :: "string list"
  StellarCoreBinaryPath :: string
  CaptiveCoreTomlPath :: string
  CheckpointFrequency :: uint32
  StoragePath :: string

record DataStoreSchema =
  LedgersPerFile :: uint32
  FilesPerPartition :: uint32

text \<open>
  \<open>Params\<close> is a Go \<open>map[string]string\<close>; the validator only asks whether a key is
  present (\<open>_, ok := c.Params[k]\<close>), which also holds for a \<open>nil\<close> map (no key present).
  The \<open>DataStoreConfig\<close> field of \<open>Config\<close> has the datastore package's type of the same
  shape; one record serves both.
\<close>

record DataStoreConfig =
  Type :: string
  Params :: "string \<rightharpoonup> string"
  Schema :: DataStoreSchema

text \<open>
  \<open>CoreBuildVersionFn\<close> returns the Go pair \<open>(version, err)\<close>.
\<close>

record Config =
  AdminPort :: int
  DataStoreConfig :: DataStoreConfig
  StellarCoreConfig :: StellarCoreConfig
  UserAgent :: string
  StartLedger :: uint32
  EndLedger :: uint32
  Mode :: Mode
  CoreVersion :: string
  SerializedCaptiveCoreToml :: bytes
  CoreBuildVersionFn :: "string \<Rightarrow> string \<times> go_error"

definition Resumable :: "Config \<Rightarrow> bool" where
  "Resumable config = (Mode config = Append)"

section \<open>Storage schema validation: \<open>DataStoreConfig.Validate\<close>\<close>

text \<open>
  The source returns errors built from message strings. Each constructor stands for
  one \<open>return\<close> of the validator:
  \<^item> \<open>MissingKind\<close>: "datastore type is required";
  \<^item> \<open>MissingParameter k\<close>: "\<open>k\<close> is required for GCS / S3 / FS";
  \<^item> \<open>UnsupportedKind t\<close>: "unsupported datastore type: \<open>t\<close>";
  \<^item> \<open>InvalidSchema f\<close>: "\<open>f\<close> must be greater than 0".
\<close>

datatype ValidationError =
    MissingKind
  | MissingParameter string
  | UnsupportedKind string
  | InvalidSchema string

definition Validate :: "DataStoreConfig \<Rightarrow> ValidationError option" where
  "Validate c =
     (if Type c = '''' then Some MissingKind
      else
        case (if Type c = ''GCS'' then
                (if Params c ''destination_bucket_path'' = None
                 then Some (MissingParameter ''destination_bucket_path'') else None)
              else if Type c = ''S3'' then
                (if Params c ''bucket_name'' = None
                 then Some (MissingParameter ''bucket_name'') else None)
              else if Type c = ''FS'' then
                (if Params c ''base_path'' = None
                 then Some (MissingParameter ''base_path'') else None)
              else Some (UnsupportedKind (Type c)))
        of Some e \<Rightarrow> Some e
         | None \<Rightarrow>
             if LedgersPerFile (Schema c) = 0 then Some (InvalidSchema ''ledgers_per_file'')
             else if FilesPerPartition (Schema c) = 0 then Some (InvalidSchema ''files_per_partition'')
             else None)"

section \<open>Ledger range resolution\<close>

subsection \<open>File boundaries\<close>

text \<open>
  \<open>adjustLedgerRange\<close> calls two methods of the datastore package's schema type,
  \<open>GetSequenceNumberStartBoundary\<close> and \<open>GetSequenceNumberEndBoundary\<close>, whose bodies
  are not part of the sources at hand. The arithmetic is that of \<open>uint32\<close>, which
  wraps around when a rounded-up value does not fit in 32 bits. The specification
  requires ledgers-per-file to be positive.
\<close>

text \<open>
  Modelled from the spec: \<open>GetSequenceNumberStartBoundary\<close>, the missing method that
  rounds a ledger sequence \<^emph>\<open>down\<close> to the nearest boundary implied by
  ledgers-per-file (23 goes down to 20 for ten ledgers per file).
\<close>

definition GetSequenceNumberStartBoundary :: "DataStoreSchema \<Rightarrow> uint32 \<Rightarrow> uint32" where
  "GetSequenceNumberStartBoundary ec ledgerSeq =
     (ledgerSeq div LedgersPerFile ec) * LedgersPerFile ec"

text \<open>
  Modelled from the spec: \<open>GetSequenceNumberEndBoundary\<close>, the missing method that
  rounds a ledger sequence \<^emph>\<open>up\<close> to the nearest file boundary (57 goes up to 60 for
  ten ledgers per file), an already aligned value being left as it is.
\<close>

definition GetSequenceNumberEndBoundary :: "DataStoreSchema \<Rightarrow> uint32 \<Rightarrow> uint32" where
  "GetSequenceNumberEndBoundary ec ledgerSeq =
     (if ledgerSeq mod LedgersPerFile ec = 0 then ledgerSeq
      else (ledgerSeq div LedgersPerFile ec + 1) * LedgersPerFile ec)"

subsection \<open>\<open>adjustLedgerRange\<close>\<close>

text \<open>
  The method mutates the receiver; the model returns the updated configuration.
  \<open>ordered.Max(2, x)\<close> is the larger of the two.
\<close>

definition adjustLedgerRange :: "Config \<Rightarrow> Config" where
  "adjustLedgerRange config =
     (let config1 = config\<lparr>StartLedger :=
            GetSequenceNumberStartBoundary (Schema (DataStoreConfig config)) (StartLedger config)\<rparr>;
          config2 = config1\<lparr>StartLedger := max 2 (StartLedger config1)\<rparr>
      in if EndLedger config2 \<noteq> 0
         then config2\<lparr>EndLedger :=
            GetSequenceNumberEndBoundary (Schema (DataStoreConfig config2)) (EndLedger config2)\<rparr>
         else config2)"

subsection \<open>\<open>ValidateAndSetLedgerRange\<close>\<close>

text \<open>
  The history archive is consulted through two calls: \<open>GetLatestLedgerSequence()\<close>,
  which returns the Go pair \<open>(sequence, err)\<close>, and
  \<open>GetCheckpointManager().GetCheckpointFrequency()\<close>.
\<close>

record ArchiveInterface =
  GetLatestLedgerSequence :: "uint32 \<times> go_error"
  GetCheckpointFrequency :: uint32

text \<open>
  One constructor for each \<open>return\<close> of an error, in source order:
  \<^item> \<open>StartTooLow\<close>: "invalid start value, must be greater than one.";
  \<^item> \<open>UnboundedNotAllowed\<close>: "invalid end value, unbounded mode not supported, \<dots>";
  \<^item> \<open>EndNotAfterStart\<close>: "invalid end value, must be greater than start";
  \<^item> \<open>NetworkStateUnavailable e\<close>: the archive's error \<open>e\<close>, wrapped;
  \<^item> \<open>StartBeyondNetwork s l\<close>: "start \<open>s\<close> exceeds latest network ledger \<open>l\<close>";
  \<^item> \<open>EndBeyondNetwork e l\<close>: "end \<open>e\<close> exceeds latest network ledger \<open>l\<close>".
\<close>

datatype RangeError =
    StartTooLow
  | UnboundedNotAllowed
  | EndNotAfterStart
  | NetworkStateUnavailable string
  | StartBeyondNetwork uint32 uint32
  | EndBeyondNetwork uint32 uint32

text \<open>
  The method returns an error and mutates the receiver; the model returns the
  configuration as it is after the call together with the error (\<open>None\<close> for \<open>nil\<close>).
  The ceiling \<open>latest + frequency * 2\<close> is computed before the archive's error is looked
  at, as in the source.
\<close>

definition ValidateAndSetLedgerRange :: "ArchiveInterface \<Rightarrow> Config \<Rightarrow> Config \<times> RangeError option" where
  "ValidateAndSetLedgerRange archive config =
     (if StartLedger config < 2 then (config, Some StartTooLow)
      else if Mode config = ScanFill \<and> EndLedger config = 0 then (config, Some UnboundedNotAllowed)
      else if EndLedger config \<noteq> 0 \<and> EndLedger config \<le> StartLedger config
        then (config, Some EndNotAfterStart)
      else
        let (latest, err) = GetLatestLedgerSequence archive;
            latestNetworkLedger = latest + GetCheckpointFrequency archive * 2
        in case err of
             Some e \<Rightarrow> (config, Some (NetworkStateUnavailable e))
           | None \<Rightarrow>
               if StartLedger config > latestNetworkLedger
                 then (config, Some (StartBeyondNetwork (StartLedger config) latestNetworkLedger))
               else if EndLedger config > latestNetworkLedger
                 then (config, Some (EndBeyondNetwork (EndLedger config) latestNetworkLedger))
               else (adjustLedgerRange config, None))"

section \<open>Network preset resolution: \<open>processToml\<close>\<close>

text \<open>
  The preset values are constants of the network and ledger-backend packages; they are
  taken as parameters.
\<close>

record NetworkPresets =
  PublicNetworkPassphrase :: string
  PublicNetworkhistoryArchiveURLs :: "string list"
  PubnetDefaultConfig :: bytes
  TestNetworkPassphrase :: string
  TestNetworkhistoryArchiveURLs :: "string list"
  TestnetDefaultConfig :: bytes

text \<open>
  The three calls that leave the program: \<open>toml.LoadFile\<close> (a tree or an error),
  \<open>cfg.Unmarshal(config)\<close> (decodes the tree into the configuration it is given and
  returns an error) and \<open>os.ReadFile\<close> (the Go pair \<open>(data, err)\<close>).
\<close>

record 'tree TomlEnv =
  LoadFile :: "string \<Rightarrow> string + 'tree"
  Unmarshal :: "'tree \<Rightarrow> Config \<Rightarrow> Config \<times> go_error"
  ReadFile :: "string \<Rightarrow> bytes \<times> go_error"

text \<open>
  One constructor for each \<open>return\<close> of an error, in source order:
  \<^item> \<open>NotFound e\<close>: "config file \<dots> was not found";
  \<^item> \<open>ParseFailure e\<close>: "Error unmarshalling TOML config.";
  \<^item> \<open>IncompleteNetworkConfig\<close>: "Invalid captive core config, the 'network' parameter
    must be set to pubnet or testnet or \<dots> must be set.";
  \<^item> \<open>InvalidNetwork\<close>: "invalid captive core config, preconfigured_network must be set to
    'pubnet' or 'testnet' or \<dots>" (the \<open>default\<close> case of the switch);
  \<^item> \<open>ConfigFileUnreadable e\<close>: "Failed to load captive-core-toml-path file".
\<close>

datatype ConfigError =
    NotFound string
  | ParseFailure string
  | IncompleteNetworkConfig
  | InvalidNetwork
  | ConfigFileUnreadable string

text \<open>
  The method mutates the receiver and returns an error; the model returns the
  configuration as it is after the call and the error. The switch on the network name
  yields the preset passphrase and archive URLs (Go's zero values for the empty name)
  and, for a preset, stores the preset's default payload. \<open>os.ReadFile\<close> assigns its
  data to the payload before its error is looked at.
\<close>

definition processToml ::
  "'tree TomlEnv \<Rightarrow> NetworkPresets \<Rightarrow> string \<Rightarrow> Config \<Rightarrow> Config \<times> ConfigError option" where
  "processToml env presets tomlPath config =
     (case LoadFile env tomlPath of
        Inl e \<Rightarrow> (config, Some (NotFound e))
      | Inr cfg \<Rightarrow>
          let (config1, err) = Unmarshal env cfg config in
          case err of
            Some e \<Rightarrow> (config1, Some (ParseFailure e))
          | None \<Rightarrow>
              let config2 = (if UserAgent config1 = '''' then config1\<lparr>UserAgent := UserAgent_const\<rparr>
                             else config1);
                  scc = StellarCoreConfig config2
              in
              if Network scc = '''' \<and>
                 (length (HistoryArchiveUrls scc) = 0 \<or> NetworkPassphrase scc = '''' \<or>
                  CaptiveCoreTomlPath scc = '''')
              then (config2, Some IncompleteNetworkConfig)
              else
                case (if Network scc = '''' then Some ('''', [], config2)
                      else if Network scc = Pubnet then
                        Some (PublicNetworkPassphrase presets, PublicNetworkhistoryArchiveURLs presets,
                              config2\<lparr>SerializedCaptiveCoreToml := PubnetDefaultConfig presets\<rparr>)
                      else if Network scc = Testnet then
                        Some (TestNetworkPassphrase presets, TestNetworkhistoryArchiveURLs presets,
                              config2\<lparr>SerializedCaptiveCoreToml := TestnetDefaultConfig presets\<rparr>)
                      else None)
                of
                  None \<Rightarrow> (config2, Some InvalidNetwork)
                | Some (networkPassPhrase, networkArchiveUrls, config3) \<Rightarrow>
                    let config4 =
                          (if NetworkPassphrase (StellarCoreConfig config3) = ''''
                           then config3\<lparr>StellarCoreConfig :=
                                  (StellarCoreConfig config3)\<lparr>NetworkPassphrase := networkPassPhrase\<rparr>\<rparr>
                           else config3);
                        config5 =
                          (if length (HistoryArchiveUrls (StellarCoreConfig config4)) < 1
                           then config4\<lparr>StellarCoreConfig :=
                                  (StellarCoreConfig config4)\<lparr>HistoryArchiveUrls := networkArchiveUrls\<rparr>\<rparr>
                           else config4)
                    in
                    if CaptiveCoreTomlPath (StellarCoreConfig config5) \<noteq> '''' then
                      let (data, err) = ReadFile env (CaptiveCoreTomlPath (StellarCoreConfig config5));
                          config6 = config5\<lparr>SerializedCaptiveCoreToml := data\<rparr>
                      in case err of
                           Some e \<Rightarrow> (config6, Some (ConfigFileUnreadable e))
                         | None \<Rightarrow> (config6, None)
                    else (config5, None))"

section \<open>Streaming-engine configuration: \<open>GenerateCaptiveCoreConfig\<close>\<close>

record CaptiveCoreTomlParams =
  NetworkPassphrase_p :: string
  HistoryArchiveURLs_p :: "string list"
  UseDB_p :: bool

text \<open>
  The engine configuration handed to the ledger backend (its logger field is left out).
  The type of the materialised payload is the backend's and stays a parameter.
\<close>

record 'toml CaptiveCoreConfig =
  BinaryPath :: string
  NetworkPassphrase_c :: string
  HistoryArchiveURLs_c :: "string list"
  CheckpointFrequency_c :: uint32
  Toml :: 'toml
  UserAgent_c :: string
  UseDB_c :: bool
  StoragePath_c :: string

text \<open>
  One constructor for each \<open>return\<close> of an error:
  \<^item> \<open>NoBinaryPath\<close>: "Invalid captive core config, no stellar-core binary path was
    provided.";
  \<^item> \<open>VersionProbeFailed e\<close>: "failed to set stellar-core version info: \<dots>";
  \<^item> \<open>TomlCreationFailed e\<close>: "Failed to create captive-core toml".
\<close>

datatype BuildError =
    NoBinaryPath
  | VersionProbeFailed string
  | TomlCreationFailed string

text \<open>
  \<open>c.CoreVersion, err = c.CoreBuildVersionFn(\<dots>)\<close> stores the version before the error
  is looked at.
\<close>

definition setCoreVersionInfo :: "Config \<Rightarrow> Config \<times> go_error" where
  "setCoreVersionInfo c =
     (let (v, err) = CoreBuildVersionFn c (StellarCoreBinaryPath (StellarCoreConfig c))
      in (c\<lparr>CoreVersion := v\<rparr>, err))"

text \<open>
  \<open>NewCaptiveCoreTomlFromData\<close> and \<open>DefaultCheckpointFrequency\<close> belong to the
  ledger-backend and history-archive packages and are parameters. The method mutates
  the receiver (binary path, core version); the model returns it with the result.
\<close>

definition GenerateCaptiveCoreConfig ::
  "(bytes \<Rightarrow> CaptiveCoreTomlParams \<Rightarrow> string + 'toml) \<Rightarrow> uint32 \<Rightarrow> string \<Rightarrow> Config
     \<Rightarrow> Config \<times> (BuildError + 'toml CaptiveCoreConfig)" where
  "GenerateCaptiveCoreConfig NewCaptiveCoreTomlFromData DefaultCheckpointFrequency coreBinFromPath config =
     (if StellarCoreBinaryPath (StellarCoreConfig config) = '''' \<and> coreBinFromPath = ''''
      then (config, Inl NoBinaryPath)
      else
        let config1 =
              (if StellarCoreBinaryPath (StellarCoreConfig config) = ''''
               then config\<lparr>StellarCoreConfig :=
                      (StellarCoreConfig config)\<lparr>StellarCoreBinaryPath := coreBinFromPath\<rparr>\<rparr>
               else config);
            (config2, err) = setCoreVersionInfo config1
        in case err of
             Some e \<Rightarrow> (config2, Inl (VersionProbeFailed e))
           | None \<Rightarrow>
               let params = \<lparr>NetworkPassphrase_p = NetworkPassphrase (StellarCoreConfig config2),
                             HistoryArchiveURLs_p = HistoryArchiveUrls (StellarCoreConfig config2),
                             UseDB_p = True\<rparr>
               in case NewCaptiveCoreTomlFromData (SerializedCaptiveCoreToml config2) params of
                    Inl e \<Rightarrow> (config2, Inl (TomlCreationFailed e))
                  | Inr captiveCoreToml \<Rightarrow>
                      let checkpointFrequency =
                            (if CheckpointFrequency (StellarCoreConfig config2) > 0
                             then CheckpointFrequency (StellarCoreConfig config2)
                             else DefaultCheckpointFrequency)
                      in (config2,
                          Inr \<lparr>BinaryPath = StellarCoreBinaryPath (StellarCoreConfig config2),
                               NetworkPassphrase_c = NetworkPassphrase_p params,
                               HistoryArchiveURLs_c = HistoryArchiveURLs_p params,
                               CheckpointFrequency_c = checkpointFrequency,
                               Toml = captiveCoreToml,
                               UserAgent_c = UserAgent config2,
                               UseDB_c = True,
                               StoragePath_c = StoragePath (StellarCoreConfig config2)\<rparr>))"

section \<open>Example inputs\<close>

text \<open>
  Concrete configurations, archives and environments at which the theorems below are
  instantiated.
\<close>

definition example_config :: Config where
  "example_config =
     \<lparr>AdminPort = 6061,
      DataStoreConfig = \<lparr>Type = ''GCS'', Params = [''destination_bucket_path'' \<mapsto> ''bucket/ledgers''],
                         Schema = \<lparr>LedgersPerFile = 10, FilesPerPartition = 64\<rparr>\<rparr>,
      StellarCoreConfig = \<lparr>Network = ''testnet'', NetworkPassphrase = '''', HistoryArchiveUrls = [],
                           StellarCoreBinaryPath = '''', CaptiveCoreTomlPath = '''',
                           CheckpointFrequency = 0, StoragePath = ''''\<rparr>,
      UserAgent = '''', StartLedger = 23, EndLedger = 57, Mode = ScanFill, CoreVersion = '''',
      SerializedCaptiveCoreToml = [], CoreBuildVersionFn = (\<lambda>p. (''v22.0.0'', None))\<rparr>"

definition example_archive :: ArchiveInterface where
  "example_archive = \<lparr>GetLatestLedgerSequence = (1000, None), GetCheckpointFrequency = 64\<rparr>"

definition example_presets :: NetworkPresets where
  "example_presets =
     \<lparr>PublicNetworkPassphrase = ''Public Global Stellar Network ; September 2015'',
      PublicNetworkhistoryArchiveURLs = [''https://history.stellar.org/prd/core-live/core_live_001/''],
      PubnetDefaultConfig = [1],
      TestNetworkPassphrase = ''Test SDF Network ; September 2015'',
      TestNetworkhistoryArchiveURLs = [''https://history.stellar.org/prd/core-testnet/core_testnet_001/''],
      TestnetDefaultConfig = [2]\<rparr>"

definition example_override_doc :: Config where
  "example_override_doc =
     example_config\<lparr>StellarCoreConfig := (StellarCoreConfig example_config)
        \<lparr>Network := ''pubnet'', NetworkPassphrase := ''Standalone Network ; February 2017'',
         CaptiveCoreTomlPath := ''core.cfg''\<rparr>\<rparr>"

definition example_incomplete_doc :: Config where
  "example_incomplete_doc =
     example_config\<lparr>StellarCoreConfig := (StellarCoreConfig example_config)
        \<lparr>Network := '''', NetworkPassphrase := ''Standalone Network ; February 2017'',
         CaptiveCoreTomlPath := ''core.cfg''\<rparr>\<rparr>"

text \<open>
  An environment for the examples: the tree of a document is the decoded document
  itself, and decoding keeps the fields that carry no TOML tag.
\<close>

definition example_env :: "Config TomlEnv" where
  "example_env =
     \<lparr>LoadFile = (\<lambda>p. if p = ''config.toml'' then Inr example_config
                       else if p = ''override.toml'' then Inr example_override_doc
                       else if p = ''incomplete.toml'' then Inr example_incomplete_doc
                       else Inl ''no such file''),
      Unmarshal = (\<lambda>tree config. (tree\<lparr>StartLedger := StartLedger config, EndLedger := EndLedger config,
                                         Mode := Mode config\<rparr>, None)),
      ReadFile = (\<lambda>p. if p = ''core.cfg'' then ([7, 8], None) else ([], Some ''no such file''))\<rparr>"

definition example_NewCaptiveCoreTomlFromData :: "bytes \<Rightarrow> CaptiveCoreTomlParams \<Rightarrow> string + bytes" where
  "example_NewCaptiveCoreTomlFromData data params = Inr data"

section \<open>Arithmetic of file boundaries\<close>

lemma unat_max_word: "unat (max a b) = max (unat a) (unat (b::'a::len word))"
  by (simp add: max_def word_le_nat_alt)

lemma le_mult_pos: "0 < L \<Longrightarrow> (a::nat) \<le> a * L"
  by (cases L) simp_all

lemma div_rem_mult: "r < L \<Longrightarrow> (r + k * L) div L = (k::nat)"
  by simp

lemma nat_round_up_aligned: "0 < L \<Longrightarrow> n mod L = 0 \<Longrightarrow> ((n + L - 1) div L) * L = (n::nat)"
proof -
  assume L: "0 < L" and m: "n mod L = 0"
  from m have "L dvd n" by (rule mod_0_imp_dvd)
  then obtain k where "n = L * k" unfolding dvd_def by blast
  then have k: "n = k * L" by (simp only: mult.commute)
  have "n + L - 1 = (L - 1) + k * L" using L k by simp
  moreover have "(L - 1 + k * L) div L = k" using L by (intro div_rem_mult) simp
  ultimately have "(n + L - 1) div L = k" by (simp only:)
  with k show ?thesis by (simp only:)
qed

lemma nat_round_up_unaligned: "0 < L \<Longrightarrow> n mod L \<noteq> 0 \<Longrightarrow> (n + L - 1) div L = n div L + (1::nat)"
proof -
  assume L: "0 < L" and m: "n mod L \<noteq> 0"
  define q where "q = n div L * L"
  define r where "r = n mod L"
  have n: "n = q + r" by (simp add: q_def r_def)
  have r: "1 \<le> r" "r < L" using m L by (simp_all add: r_def)
  have "n + L - 1 = (r - 1) + (q + L)" using n r by linarith
  moreover have "q + L = (n div L + 1) * L" by (simp add: q_def)
  ultimately have "n + L - 1 = (r - 1) + (n div L + 1) * L" by (simp only:)
  moreover have "(r - 1 + (n div L + 1) * L) div L = n div L + 1"
    using r by (intro div_rem_mult) linarith
  ultimately show ?thesis by (simp only:)
qed

text \<open>
  The two formulas used below are rounding down and rounding up to a multiple of \<open>L\<close>:
  the result is a multiple, on the right side of \<open>n\<close>, and less than \<open>L\<close> away from it.
\<close>

lemma round_down_nat:
  "0 < L \<Longrightarrow> L dvd n div L * L \<and> n div L * L \<le> n \<and> n < n div L * L + (L::nat)"
proof -
  assume L: "0 < L"
  have "n = n div L * L + n mod L" by simp
  moreover have "n mod L < L" using L by simp
  ultimately have "n < n div L * L + L" by linarith
  then show ?thesis by simp
qed

lemma round_up_nat:
  "0 < L \<Longrightarrow> L dvd (n + L - 1) div L * L \<and> n \<le> (n + L - 1) div L * L
     \<and> (n + L - 1) div L * L < n + (L::nat)"
proof -
  assume L: "0 < L"
  show ?thesis
  proof (cases "n mod L = 0")
    case True
    with L have "(n + L - 1) div L * L = n" by (rule nat_round_up_aligned)
    moreover have "L dvd n" using True by (rule mod_0_imp_dvd)
    ultimately show ?thesis using L by simp
  next
    case False
    with L have u: "(n + L - 1) div L = n div L + 1" by (rule nat_round_up_unaligned)
    have n: "n = n div L * L + n mod L" by simp
    have m: "n mod L < L" "0 < n mod L" using L False by simp_all
    have e: "(n div L + 1) * L = n div L * L + L" by (simp add: algebra_simps)
    have "n \<le> n div L * L + L" using n m by linarith
    moreover have "n div L * L + L < n + L" using n m by linarith
    ultimately show ?thesis by (simp only: u e) simp
  qed
qed

lemma start_boundary_unat:
  "unat (GetSequenceNumberStartBoundary ec s) = unat s div unat (LedgersPerFile ec) * unat (LedgersPerFile ec)"
proof -
  let ?L = "LedgersPerFile ec"
  have "unat (s div ?L) * unat ?L \<le> unat s"
    by (simp add: unat_div)
  also have "\<dots> < 2 ^ LENGTH(32)" by (rule unsigned_less)
  finally have "unat (s div ?L * ?L) = unat (s div ?L) * unat ?L"
    by (simp only: unat_mult_lem)
  then show ?thesis by (simp add: GetSequenceNumberStartBoundary_def unat_div)
qed

lemma end_boundary_unat:
  assumes L: "LedgersPerFile ec \<noteq> 0"
    and fit: "(unat e + unat (LedgersPerFile ec) - 1) div unat (LedgersPerFile ec) * unat (LedgersPerFile ec) < 2 ^ 32"
  shows "unat (GetSequenceNumberEndBoundary ec e) =
    (unat e + unat (LedgersPerFile ec) - 1) div unat (LedgersPerFile ec) * unat (LedgersPerFile ec)"
proof (cases "e mod LedgersPerFile ec = 0")
  case True
  then have "unat e mod unat (LedgersPerFile ec) = 0"
    by (metis unat_mod unat_0)
  moreover have "0 < unat (LedgersPerFile ec)" using L by (simp add: unat_gt_0)
  ultimately have "(unat e + unat (LedgersPerFile ec) - 1) div unat (LedgersPerFile ec) * unat (LedgersPerFile ec) = unat e"
    by (intro nat_round_up_aligned)
  then show ?thesis using True
    by (simp add: GetSequenceNumberEndBoundary_def)
next
  case False
  let ?L = "LedgersPerFile ec"
  have pos: "0 < unat ?L" using L by (simp add: unat_gt_0)
  have nz: "unat e mod unat ?L \<noteq> 0"
    using False by (metis unat_mod unat_eq_0)
  have up: "(unat e + unat ?L - 1) div unat ?L = unat e div unat ?L + 1"
    using pos nz by (rule nat_round_up_unaligned)
  have fit': "(unat e div unat ?L + 1) * unat ?L < 2 ^ 32" using fit up by simp
  have "unat e div unat ?L + 1 \<le> (unat e div unat ?L + 1) * unat ?L"
    using pos by (rule le_mult_pos)
  then have small: "unat e div unat ?L + 1 < 2 ^ 32" using fit' by linarith
  have one: "unat (e div ?L + 1) = unat e div unat ?L + 1"
    using small by (simp add: unat_word_ariths unat_div)
  have "unat (e div ?L + 1) * unat ?L < 2 ^ LENGTH(32)" using fit' one by simp
  then have "unat ((e div ?L + 1) * ?L) = unat (e div ?L + 1) * unat ?L"
    by (simp only: unat_mult_lem)
  then show ?thesis using False one up by (simp add: GetSequenceNumberEndBoundary_def)
qed




text \<open>
  For zero ledgers per file the modelled end boundary is 0, as is the arithmetic
  formula for it; the lemmas on the end boundary therefore need no condition on
  ledgers-per-file.
\<close>

lemma end_boundary_zero:
  "LedgersPerFile ec = 0 \<Longrightarrow> GetSequenceNumberEndBoundary ec e = 0"
  by (simp add: GetSequenceNumberEndBoundary_def)

lemma end_boundary_unat_fit:
  assumes fit: "(unat e + unat (LedgersPerFile ec) - 1) div unat (LedgersPerFile ec) * unat (LedgersPerFile ec) < 2 ^ 32"
  shows "unat (GetSequenceNumberEndBoundary ec e) =
    (unat e + unat (LedgersPerFile ec) - 1) div unat (LedgersPerFile ec) * unat (LedgersPerFile ec)"
proof (cases "LedgersPerFile ec = 0")
  case True
  then show ?thesis by (simp add: end_boundary_zero)
next
  case False
  then show ?thesis using fit by (rule end_boundary_unat)
qed


lemma adjustLedgerRange_eq:
  "adjustLedgerRange config =
     config\<lparr>StartLedger := max 2 (GetSequenceNumberStartBoundary (Schema (DataStoreConfig config)) (StartLedger config)),
            EndLedger := (if EndLedger config = 0 then 0
                          else GetSequenceNumberEndBoundary (Schema (DataStoreConfig config)) (EndLedger config))\<rparr>"
  by (simp add: adjustLedgerRange_def Let_def)

lemma validate_ok_adjust:
  "ValidateAndSetLedgerRange archive config = (config', None) \<Longrightarrow> config' = adjustLedgerRange config"
  by (auto simp add: ValidateAndSetLedgerRange_def Let_def split: prod.splits option.splits if_splits)

section \<open>Properties of the ledger range resolver\<close>

text \<open>
  C1, as stated: every request that passes validation gets as final end the requested
  end rounded up to the ledgers-per-file boundary. This is false where the rounded-up
  value does not fit in 32 bits. With ten ledgers per file, latest ledger 4294967167
  and checkpoint frequency 64 (ceiling 4294967295), the request start 23, end
  4294967295 passes validation; rounding up would give 4294967300, and the final end
  is 4, below the requested end.
\<close>

theorem range_alignment_counterexample:
  "ValidateAndSetLedgerRange \<lparr>GetLatestLedgerSequence = (4294967167, None), GetCheckpointFrequency = 64\<rparr>
       (example_config\<lparr>EndLedger := 4294967295\<rparr>)
     = (adjustLedgerRange (example_config\<lparr>EndLedger := 4294967295\<rparr>), None)
   \<and> LedgersPerFile (Schema (DataStoreConfig (example_config\<lparr>EndLedger := 4294967295\<rparr>))) = 10
   \<and> EndLedger (example_config\<lparr>EndLedger := 4294967295\<rparr>) \<noteq> 0
   \<and> EndLedger (adjustLedgerRange (example_config\<lparr>EndLedger := 4294967295\<rparr>)) = 4
   \<and> unat (EndLedger (adjustLedgerRange (example_config\<lparr>EndLedger := 4294967295\<rparr>)))
        \<noteq> (unat (EndLedger (example_config\<lparr>EndLedger := 4294967295\<rparr>)) + 10 - 1) div 10 * 10
   \<and> EndLedger (adjustLedgerRange (example_config\<lparr>EndLedger := 4294967295\<rparr>))
        < EndLedger (example_config\<lparr>EndLedger := 4294967295\<rparr>)"
  by (simp add: ValidateAndSetLedgerRange_def adjustLedgerRange_eq example_config_def ScanFill_def
      GetSequenceNumberStartBoundary_def GetSequenceNumberEndBoundary_def)

text \<open>
  C1, amended. A request that passes validation gets the final start ledger "requested
  start rounded down to the ledgers-per-file boundary, then clamped to at least 2" (the
  clamp is applied to the rounded value). Its final end ledger is 0 when the requested
  end is 0, and when the requested end is not 0 and its rounding up to the boundary
  fits in 32 bits, the final end is that rounded-up value. The start and end are given
  both through the boundary functions and as plain arithmetic on the unsigned values.
  With ten ledgers per file, a start of 23 becomes 20 and an end of 57 becomes 60 (the
  instance after the theorem).
\<close>

theorem range_alignment:
  assumes ok: "ValidateAndSetLedgerRange archive config = (config', None)"
  shows "StartLedger config' =
           max 2 (GetSequenceNumberStartBoundary (Schema (DataStoreConfig config)) (StartLedger config))
       \<and> unat (StartLedger config') =
           max 2 (unat (StartLedger config) div unat (LedgersPerFile (Schema (DataStoreConfig config)))
                    * unat (LedgersPerFile (Schema (DataStoreConfig config))))
       \<and> (EndLedger config = 0 \<longrightarrow> EndLedger config' = 0)
       \<and> (EndLedger config \<noteq> 0 \<longrightarrow>
            EndLedger config' =
              GetSequenceNumberEndBoundary (Schema (DataStoreConfig config)) (EndLedger config))
       \<and> (EndLedger config \<noteq> 0 \<and>
            (unat (EndLedger config) + unat (LedgersPerFile (Schema (DataStoreConfig config))) - 1)
               div unat (LedgersPerFile (Schema (DataStoreConfig config)))
               * unat (LedgersPerFile (Schema (DataStoreConfig config))) < 2 ^ 32 \<longrightarrow>
            unat (EndLedger config') =
              (unat (EndLedger config) + unat (LedgersPerFile (Schema (DataStoreConfig config))) - 1)
               div unat (LedgersPerFile (Schema (DataStoreConfig config)))
               * unat (LedgersPerFile (Schema (DataStoreConfig config))))"
proof -
  have c': "config' = adjustLedgerRange config" using ok by (rule validate_ok_adjust)
  have s: "StartLedger config' =
      max 2 (GetSequenceNumberStartBoundary (Schema (DataStoreConfig config)) (StartLedger config))"
    by (simp add: c' adjustLedgerRange_eq)
  have e0: "EndLedger config = 0 \<longrightarrow> EndLedger config' = 0"
    by (simp add: c' adjustLedgerRange_eq)
  have e1: "EndLedger config \<noteq> 0 \<longrightarrow> EndLedger config' =
      GetSequenceNumberEndBoundary (Schema (DataStoreConfig config)) (EndLedger config)"
    by (simp add: c' adjustLedgerRange_eq)
  show ?thesis
    using s e0 e1 by (simp add: unat_max_word start_boundary_unat end_boundary_unat_fit)
qed

theorem range_alignment_witness:
  "ValidateAndSetLedgerRange example_archive example_config = (adjustLedgerRange example_config, None)
   \<and> LedgersPerFile (Schema (DataStoreConfig example_config)) = 10
   \<and> StartLedger example_config = 23 \<and> EndLedger example_config = 57
   \<and> StartLedger (adjustLedgerRange example_config) = 20
   \<and> EndLedger (adjustLedgerRange example_config) = 60"
proof -
  have ok: "ValidateAndSetLedgerRange example_archive example_config = (adjustLedgerRange example_config, None)"
    by (simp add: ValidateAndSetLedgerRange_def example_archive_def example_config_def ScanFill_def)
  show ?thesis
    using ok range_alignment [OF ok]
    by (simp add: example_config_def word_unat_eq_iff)
qed







text \<open>
  C4. A requested start below 2 fails with "start too low", whatever the mode, the
  requested end and the archive's answer: the check comes first and the configuration
  is returned as it was.
\<close>

theorem start_too_low_first:
  "StartLedger config < 2 \<Longrightarrow>
     ValidateAndSetLedgerRange archive config = (config, Some StartTooLow)"
  by (simp add: ValidateAndSetLedgerRange_def)

theorem start_too_low_first_witness:
  "StartLedger (example_config\<lparr>StartLedger := 1, EndLedger := 0\<rparr>) < 2
   \<and> ValidateAndSetLedgerRange \<lparr>GetLatestLedgerSequence = (0, Some ''archive unreachable''), GetCheckpointFrequency = 64\<rparr>
         (example_config\<lparr>StartLedger := 1, EndLedger := 0\<rparr>)
       = (example_config\<lparr>StartLedger := 1, EndLedger := 0\<rparr>, Some StartTooLow)"
proof -
  have h: "StartLedger (example_config\<lparr>StartLedger := 1, EndLedger := 0\<rparr>) < 2" by simp
  show ?thesis using h start_too_low_first [OF h] by simp
qed

text \<open>
  C5. With a start of at least 2 and a requested end of 0, mode ScanFill fails with
  "unbounded not allowed", while mode Append does not fail with that error; with an
  archive that answers and a start within the ceiling, the Append request succeeds.
\<close>

theorem unbounded_only_for_append:
  assumes "2 \<le> StartLedger config" and "EndLedger config = 0"
  shows "(Mode config = ScanFill \<longrightarrow>
            ValidateAndSetLedgerRange archive config = (config, Some UnboundedNotAllowed))
       \<and> (Mode config = Append \<longrightarrow>
            snd (ValidateAndSetLedgerRange archive config) \<noteq> Some UnboundedNotAllowed
          \<and> (snd (GetLatestLedgerSequence archive) = None
               \<and> StartLedger config \<le> fst (GetLatestLedgerSequence archive) + GetCheckpointFrequency archive * 2
             \<longrightarrow> ValidateAndSetLedgerRange archive config = (adjustLedgerRange config, None)))"
  using assms
  by (auto simp add: ValidateAndSetLedgerRange_def ScanFill_def Append_def Let_def not_less
      split: prod.splits option.splits)

theorem unbounded_only_for_append_witness:
  "ValidateAndSetLedgerRange example_archive (example_config\<lparr>EndLedger := 0, Mode := ScanFill\<rparr>)
     = (example_config\<lparr>EndLedger := 0, Mode := ScanFill\<rparr>, Some UnboundedNotAllowed)
   \<and> ValidateAndSetLedgerRange example_archive (example_config\<lparr>EndLedger := 0, Mode := Append\<rparr>)
     = (adjustLedgerRange (example_config\<lparr>EndLedger := 0, Mode := Append\<rparr>), None)"
proof -
  have s: "2 \<le> StartLedger (example_config\<lparr>EndLedger := 0, Mode := ScanFill\<rparr>)"
          "2 \<le> StartLedger (example_config\<lparr>EndLedger := 0, Mode := Append\<rparr>)"
    by (simp_all add: example_config_def)
  have e: "EndLedger (example_config\<lparr>EndLedger := 0, Mode := ScanFill\<rparr>) = 0"
          "EndLedger (example_config\<lparr>EndLedger := 0, Mode := Append\<rparr>) = 0"
    by simp_all
  show ?thesis
    using unbounded_only_for_append [OF s(1) e(1), of example_archive]
          unbounded_only_for_append [OF s(2) e(2), of example_archive]
    by (simp add: example_archive_def example_config_def)
qed

text \<open>
  C10. Range resolution is atomic on failure: whenever \<open>ValidateAndSetLedgerRange\<close>
  returns an error, whichever it is, the configuration after the call is the
  configuration before it; in particular the start ledger, the end ledger and the mode
  are unchanged.
\<close>

theorem range_failure_atomic:
  assumes "snd (ValidateAndSetLedgerRange archive config) = Some err"
  shows "fst (ValidateAndSetLedgerRange archive config) = config
       \<and> StartLedger (fst (ValidateAndSetLedgerRange archive config)) = StartLedger config
       \<and> EndLedger (fst (ValidateAndSetLedgerRange archive config)) = EndLedger config
       \<and> Mode (fst (ValidateAndSetLedgerRange archive config)) = Mode config"
proof -
  have "fst (ValidateAndSetLedgerRange archive config) = config"
    using assms
    by (auto simp add: ValidateAndSetLedgerRange_def Let_def split: prod.splits option.splits if_splits)
  then show ?thesis by simp
qed

theorem range_failure_atomic_witness:
  "snd (ValidateAndSetLedgerRange example_archive (example_config\<lparr>EndLedger := 1129\<rparr>))
     = Some (EndBeyondNetwork 1129 1128)
   \<and> StartLedger (fst (ValidateAndSetLedgerRange example_archive (example_config\<lparr>EndLedger := 1129\<rparr>))) = 23
   \<and> EndLedger (fst (ValidateAndSetLedgerRange example_archive (example_config\<lparr>EndLedger := 1129\<rparr>))) = 1129
   \<and> Mode (fst (ValidateAndSetLedgerRange example_archive (example_config\<lparr>EndLedger := 1129\<rparr>))) = ScanFill"
proof -
  have h: "snd (ValidateAndSetLedgerRange example_archive (example_config\<lparr>EndLedger := 1129\<rparr>))
     = Some (EndBeyondNetwork 1129 1128)"
    by (simp add: ValidateAndSetLedgerRange_def example_archive_def example_config_def ScanFill_def)
  show ?thesis
    using h range_failure_atomic [OF h] by (simp add: example_config_def)
qed

section \<open>Properties of the storage schema validator\<close>

text \<open>
  C8. Validation of a storage configuration returns no error exactly when the kind is
  one of GCS, S3, FS, the parameter required by that kind is present
  (\<open>destination_bucket_path\<close>, \<open>bucket_name\<close>, \<open>base_path\<close>) and both schema fields are
  positive. Otherwise it returns the matching error: missing kind for an empty kind,
  missing parameter (with its name) when the kind's parameter is absent, unsupported
  kind for any other kind, invalid schema (naming the first zero field) when the kind
  and parameter are fine and a schema field is 0.
\<close>

theorem validate_storage:
  "(Validate c = None \<longleftrightarrow>
      (Type c = ''GCS'' \<and> ''destination_bucket_path'' \<in> dom (Params c)
       \<or> Type c = ''S3'' \<and> ''bucket_name'' \<in> dom (Params c)
       \<or> Type c = ''FS'' \<and> ''base_path'' \<in> dom (Params c))
      \<and> 0 < LedgersPerFile (Schema c) \<and> 0 < FilesPerPartition (Schema c))
   \<and> (Type c = '''' \<longrightarrow> Validate c = Some MissingKind)
   \<and> (Type c = ''GCS'' \<and> ''destination_bucket_path'' \<notin> dom (Params c) \<longrightarrow>
        Validate c = Some (MissingParameter ''destination_bucket_path''))
   \<and> (Type c = ''S3'' \<and> ''bucket_name'' \<notin> dom (Params c) \<longrightarrow>
        Validate c = Some (MissingParameter ''bucket_name''))
   \<and> (Type c = ''FS'' \<and> ''base_path'' \<notin> dom (Params c) \<longrightarrow>
        Validate c = Some (MissingParameter ''base_path''))
   \<and> (Type c \<notin> {'''', ''GCS'', ''S3'', ''FS''} \<longrightarrow> Validate c = Some (UnsupportedKind (Type c)))
   \<and> ((Type c = ''GCS'' \<and> ''destination_bucket_path'' \<in> dom (Params c)
        \<or> Type c = ''S3'' \<and> ''bucket_name'' \<in> dom (Params c)
        \<or> Type c = ''FS'' \<and> ''base_path'' \<in> dom (Params c))
       \<and> (LedgersPerFile (Schema c) = 0 \<or> FilesPerPartition (Schema c) = 0) \<longrightarrow>
        Validate c = Some (InvalidSchema (if LedgersPerFile (Schema c) = 0 then ''ledgers_per_file''
                                          else ''files_per_partition'')))"
  by (auto simp add: Validate_def word_neq_0_conv domIff)

theorem validate_storage_witness:
  "Validate \<lparr>Type = ''GCS'', Params = [''destination_bucket_path'' \<mapsto> ''bucket/ledgers''],
             Schema = \<lparr>LedgersPerFile = 64, FilesPerPartition = 10\<rparr>\<rparr> = None
   \<and> Validate \<lparr>Type = ''GCS'', Params = Map.empty,
             Schema = \<lparr>LedgersPerFile = 64, FilesPerPartition = 10\<rparr>\<rparr>
       = Some (MissingParameter ''destination_bucket_path'')
   \<and> Validate \<lparr>Type = '''', Params = Map.empty,
             Schema = \<lparr>LedgersPerFile = 0, FilesPerPartition = 0\<rparr>\<rparr> = Some MissingKind
   \<and> Validate \<lparr>Type = ''Azure'', Params = Map.empty,
             Schema = \<lparr>LedgersPerFile = 64, FilesPerPartition = 10\<rparr>\<rparr> = Some (UnsupportedKind ''Azure'')
   \<and> Validate \<lparr>Type = ''FS'', Params = [''base_path'' \<mapsto> ''/data''],
             Schema = \<lparr>LedgersPerFile = 64, FilesPerPartition = 0\<rparr>\<rparr>
       = Some (InvalidSchema ''files_per_partition'')"
  using validate_storage [of "\<lparr>Type = ''GCS'', Params = [''destination_bucket_path'' \<mapsto> ''bucket/ledgers''],
             Schema = \<lparr>LedgersPerFile = 64, FilesPerPartition = 10\<rparr>\<rparr>"]
    validate_storage [of "\<lparr>Type = ''GCS'', Params = Map.empty,
             Schema = \<lparr>LedgersPerFile = 64, FilesPerPartition = 10\<rparr>\<rparr>"]
    validate_storage [of "\<lparr>Type = '''', Params = Map.empty,
             Schema = \<lparr>LedgersPerFile = 0, FilesPerPartition = 0\<rparr>\<rparr>"]
    validate_storage [of "\<lparr>Type = ''Azure'', Params = Map.empty,
             Schema = \<lparr>LedgersPerFile = 64, FilesPerPartition = 10\<rparr>\<rparr>"]
    validate_storage [of "\<lparr>Type = ''FS'', Params = [''base_path'' \<mapsto> ''/data''],
             Schema = \<lparr>LedgersPerFile = 64, FilesPerPartition = 0\<rparr>\<rparr>"]
  by simp

section \<open>Properties of the network preset resolver\<close>

text \<open>
  What \<open>processToml\<close> returns once the document is loaded and decoded, by the network
  name of the document.
\<close>

lemma processToml_incomplete:
  assumes load: "LoadFile env tomlPath = Inr tree"
    and parse: "Unmarshal env tree config = (doc, None)"
    and net: "Network (StellarCoreConfig doc) = ''''"
    and miss: "HistoryArchiveUrls (StellarCoreConfig doc) = [] \<or> NetworkPassphrase (StellarCoreConfig doc) = ''''
               \<or> CaptiveCoreTomlPath (StellarCoreConfig doc) = ''''"
  shows "snd (processToml env presets tomlPath config) = Some IncompleteNetworkConfig"
  using miss
  by (cases "UserAgent doc = ''''") (simp_all add: processToml_def load parse net Let_def)

lemma processToml_unknown:
  assumes load: "LoadFile env tomlPath = Inr tree"
    and parse: "Unmarshal env tree config = (doc, None)"
    and net: "Network (StellarCoreConfig doc) \<noteq> ''''" "Network (StellarCoreConfig doc) \<noteq> Pubnet"
         "Network (StellarCoreConfig doc) \<noteq> Testnet"
  shows "snd (processToml env presets tomlPath config) = Some InvalidNetwork"
  by (cases "UserAgent doc = ''''") (simp_all add: processToml_def load parse net Let_def)

lemma processToml_pubnet:
  assumes load: "LoadFile env tomlPath = Inr tree"
    and parse: "Unmarshal env tree config = (doc, None)"
    and net: "Network (StellarCoreConfig doc) = Pubnet"
    and rd: "ReadFile env (CaptiveCoreTomlPath (StellarCoreConfig doc)) = (data, err)"
  shows "processToml env presets tomlPath config =
     ((if UserAgent doc = '''' then doc\<lparr>UserAgent := UserAgent_const\<rparr> else doc)
        \<lparr>StellarCoreConfig := (StellarCoreConfig doc)
            \<lparr>NetworkPassphrase := (if NetworkPassphrase (StellarCoreConfig doc) = ''''
                                   then PublicNetworkPassphrase presets
                                   else NetworkPassphrase (StellarCoreConfig doc)),
             HistoryArchiveUrls := (if HistoryArchiveUrls (StellarCoreConfig doc) = []
                                    then PublicNetworkhistoryArchiveURLs presets
                                    else HistoryArchiveUrls (StellarCoreConfig doc))\<rparr>,
         SerializedCaptiveCoreToml := (if CaptiveCoreTomlPath (StellarCoreConfig doc) = ''''
                                       then PubnetDefaultConfig presets else data)\<rparr>,
      if CaptiveCoreTomlPath (StellarCoreConfig doc) = '''' then None
      else map_option ConfigFileUnreadable err)"
proof -
  have n: "Pubnet \<noteq> ''''" by (simp add: Pubnet_def)
  show ?thesis
    by (cases "UserAgent doc = ''''"; cases "NetworkPassphrase (StellarCoreConfig doc) = ''''";
        cases "HistoryArchiveUrls (StellarCoreConfig doc) = []";
        cases "CaptiveCoreTomlPath (StellarCoreConfig doc) = ''''"; cases err)
       (simp_all add: processToml_def load parse n net rd Let_def)
qed

lemma processToml_testnet:
  assumes load: "LoadFile env tomlPath = Inr tree"
    and parse: "Unmarshal env tree config = (doc, None)"
    and net: "Network (StellarCoreConfig doc) = Testnet"
    and rd: "ReadFile env (CaptiveCoreTomlPath (StellarCoreConfig doc)) = (data, err)"
  shows "processToml env presets tomlPath config =
     ((if UserAgent doc = '''' then doc\<lparr>UserAgent := UserAgent_const\<rparr> else doc)
        \<lparr>StellarCoreConfig := (StellarCoreConfig doc)
            \<lparr>NetworkPassphrase := (if NetworkPassphrase (StellarCoreConfig doc) = ''''
                                   then TestNetworkPassphrase presets
                                   else NetworkPassphrase (StellarCoreConfig doc)),
             HistoryArchiveUrls := (if HistoryArchiveUrls (StellarCoreConfig doc) = []
                                    then TestNetworkhistoryArchiveURLs presets
                                    else HistoryArchiveUrls (StellarCoreConfig doc))\<rparr>,
         SerializedCaptiveCoreToml := (if CaptiveCoreTomlPath (StellarCoreConfig doc) = ''''
                                       then TestnetDefaultConfig presets else data)\<rparr>,
      if CaptiveCoreTomlPath (StellarCoreConfig doc) = '''' then None
      else map_option ConfigFileUnreadable err)"
proof -
  have n: "Testnet \<noteq> ''''" "Testnet \<noteq> Pubnet" by (simp_all add: Testnet_def Pubnet_def)
  show ?thesis
    by (cases "UserAgent doc = ''''"; cases "NetworkPassphrase (StellarCoreConfig doc) = ''''";
        cases "HistoryArchiveUrls (StellarCoreConfig doc) = []";
        cases "CaptiveCoreTomlPath (StellarCoreConfig doc) = ''''"; cases err)
       (simp_all add: processToml_def load parse n net rd Let_def)
qed

lemma processToml_custom:
  assumes load: "LoadFile env tomlPath = Inr tree"
    and parse: "Unmarshal env tree config = (doc, None)"
    and net: "Network (StellarCoreConfig doc) = ''''"
    and full: "HistoryArchiveUrls (StellarCoreConfig doc) \<noteq> []"
         "NetworkPassphrase (StellarCoreConfig doc) \<noteq> ''''"
         "CaptiveCoreTomlPath (StellarCoreConfig doc) \<noteq> ''''"
    and rd: "ReadFile env (CaptiveCoreTomlPath (StellarCoreConfig doc)) = (data, err)"
  shows "processToml env presets tomlPath config =
     ((if UserAgent doc = '''' then doc\<lparr>UserAgent := UserAgent_const\<rparr> else doc)
        \<lparr>SerializedCaptiveCoreToml := data\<rparr>,
      map_option ConfigFileUnreadable err)"
  by (cases "UserAgent doc = ''''"; cases err)
     (simp_all add: processToml_def load parse net full rd Let_def)

text \<open>
  C6. For a document that names a preset (\<open>pubnet\<close> or \<open>testnet\<close>), resolution
  succeeds when the engine-configuration file, if one is named, can be read, and then
  the passphrase and the archive URLs are the document's own when it supplies them and
  the preset's when it leaves them empty, and the payload is the content of the named
  file when the document names one and the preset's default payload otherwise.
\<close>

theorem preset_overlay:
  assumes load: "LoadFile env tomlPath = Inr tree"
    and parse: "Unmarshal env tree config = (doc, None)"
    and preset: "Network (StellarCoreConfig doc) = Pubnet \<or> Network (StellarCoreConfig doc) = Testnet"
    and readable: "CaptiveCoreTomlPath (StellarCoreConfig doc) \<noteq> '''' \<longrightarrow>
                   snd (ReadFile env (CaptiveCoreTomlPath (StellarCoreConfig doc))) = None"
  shows "snd (processToml env presets tomlPath config) = None
       \<and> NetworkPassphrase (StellarCoreConfig (fst (processToml env presets tomlPath config))) =
           (if NetworkPassphrase (StellarCoreConfig doc) \<noteq> '''' then NetworkPassphrase (StellarCoreConfig doc)
            else if Network (StellarCoreConfig doc) = Pubnet then PublicNetworkPassphrase presets
            else TestNetworkPassphrase presets)
       \<and> HistoryArchiveUrls (StellarCoreConfig (fst (processToml env presets tomlPath config))) =
           (if HistoryArchiveUrls (StellarCoreConfig doc) \<noteq> [] then HistoryArchiveUrls (StellarCoreConfig doc)
            else if Network (StellarCoreConfig doc) = Pubnet then PublicNetworkhistoryArchiveURLs presets
            else TestNetworkhistoryArchiveURLs presets)
       \<and> SerializedCaptiveCoreToml (fst (processToml env presets tomlPath config)) =
           (if CaptiveCoreTomlPath (StellarCoreConfig doc) \<noteq> ''''
            then fst (ReadFile env (CaptiveCoreTomlPath (StellarCoreConfig doc)))
            else if Network (StellarCoreConfig doc) = Pubnet then PubnetDefaultConfig presets
            else TestnetDefaultConfig presets)"
proof -
  obtain data err where rd: "ReadFile env (CaptiveCoreTomlPath (StellarCoreConfig doc)) = (data, err)"
    by (cases "ReadFile env (CaptiveCoreTomlPath (StellarCoreConfig doc))")
  have tp: "Testnet \<noteq> Pubnet" by (simp add: Testnet_def Pubnet_def)
  from preset show ?thesis
  proof
    assume pubnet: "Network (StellarCoreConfig doc) = Pubnet"
    show ?thesis
      using readable rd
      by (cases "UserAgent doc = ''''") (simp_all add: processToml_pubnet [OF load parse pubnet rd] pubnet)
  next
    assume testnet: "Network (StellarCoreConfig doc) = Testnet"
    show ?thesis
      using readable rd
      by (cases "UserAgent doc = ''''") (simp_all add: processToml_testnet [OF load parse testnet rd] testnet tp)
  qed
qed

theorem preset_overlay_witness:
  "snd (processToml example_env example_presets ''config.toml'' example_config) = None
   \<and> NetworkPassphrase (StellarCoreConfig (fst (processToml example_env example_presets ''config.toml'' example_config)))
       = ''Test SDF Network ; September 2015''
   \<and> HistoryArchiveUrls (StellarCoreConfig (fst (processToml example_env example_presets ''config.toml'' example_config)))
       = [''https://history.stellar.org/prd/core-testnet/core_testnet_001/'']
   \<and> SerializedCaptiveCoreToml (fst (processToml example_env example_presets ''config.toml'' example_config)) = [2]
   \<and> snd (processToml example_env example_presets ''override.toml'' example_config) = None
   \<and> NetworkPassphrase (StellarCoreConfig (fst (processToml example_env example_presets ''override.toml'' example_config)))
       = ''Standalone Network ; February 2017''
   \<and> HistoryArchiveUrls (StellarCoreConfig (fst (processToml example_env example_presets ''override.toml'' example_config)))
       = [''https://history.stellar.org/prd/core-live/core_live_001/'']
   \<and> SerializedCaptiveCoreToml (fst (processToml example_env example_presets ''override.toml'' example_config)) = [7, 8]"
proof -
  have l1: "LoadFile example_env ''config.toml'' = Inr example_config"
    and l2: "LoadFile example_env ''override.toml'' = Inr example_override_doc"
    by (simp_all add: example_env_def)
  have p1: "Unmarshal example_env example_config example_config = (example_config, None)"
    and p2: "Unmarshal example_env example_override_doc example_config = (example_override_doc, None)"
    by (simp_all add: example_env_def example_override_doc_def)
  have n1: "Network (StellarCoreConfig example_config) = Pubnet \<or> Network (StellarCoreConfig example_config) = Testnet"
    and n2: "Network (StellarCoreConfig example_override_doc) = Pubnet \<or> Network (StellarCoreConfig example_override_doc) = Testnet"
    by (simp_all add: example_config_def example_override_doc_def Pubnet_def Testnet_def)
  have r1: "CaptiveCoreTomlPath (StellarCoreConfig example_config) \<noteq> '''' \<longrightarrow>
      snd (ReadFile example_env (CaptiveCoreTomlPath (StellarCoreConfig example_config))) = None"
    and r2: "CaptiveCoreTomlPath (StellarCoreConfig example_override_doc) \<noteq> '''' \<longrightarrow>
      snd (ReadFile example_env (CaptiveCoreTomlPath (StellarCoreConfig example_override_doc))) = None"
    by (simp_all add: example_config_def example_override_doc_def example_env_def)
  have a: "NetworkPassphrase (StellarCoreConfig example_config) = ''''"
      "HistoryArchiveUrls (StellarCoreConfig example_config) = []"
      "CaptiveCoreTomlPath (StellarCoreConfig example_config) = ''''"
      "Network (StellarCoreConfig example_config) \<noteq> Pubnet"
    by (simp_all add: example_config_def Pubnet_def)
  have b: "NetworkPassphrase (StellarCoreConfig example_override_doc) = ''Standalone Network ; February 2017''"
      "HistoryArchiveUrls (StellarCoreConfig example_override_doc) = []"
      "CaptiveCoreTomlPath (StellarCoreConfig example_override_doc) = ''core.cfg''"
      "Network (StellarCoreConfig example_override_doc) = Pubnet"
    by (simp_all add: example_config_def example_override_doc_def Pubnet_def)
  have f: "fst (ReadFile example_env ''core.cfg'') = [7, 8]"
    by (simp add: example_env_def)
  show ?thesis
    using preset_overlay [OF l1 p1 n1 r1, of example_presets]
          preset_overlay [OF l2 p2 n2 r2, of example_presets]
    by (simp add: a b f example_presets_def)
qed

text \<open>
  C7. For a document that has been loaded and decoded, resolution fails with
  "incomplete network configuration" exactly when the document gives no network name
  and lacks at least one of passphrase, archive URLs and engine-configuration file
  path.
\<close>

theorem incomplete_network_config_iff:
  assumes load: "LoadFile env tomlPath = Inr tree"
    and parse: "Unmarshal env tree config = (doc, None)"
  shows "snd (processToml env presets tomlPath config) = Some IncompleteNetworkConfig
         \<longleftrightarrow> Network (StellarCoreConfig doc) = '''' \<and>
             (NetworkPassphrase (StellarCoreConfig doc) = '''' \<or>
              HistoryArchiveUrls (StellarCoreConfig doc) = [] \<or>
              CaptiveCoreTomlPath (StellarCoreConfig doc) = '''')"
proof -
  obtain data err where rd: "ReadFile env (CaptiveCoreTomlPath (StellarCoreConfig doc)) = (data, err)"
    by (cases "ReadFile env (CaptiveCoreTomlPath (StellarCoreConfig doc))")
  consider
      (incomplete) "Network (StellarCoreConfig doc) = ''''"
        "HistoryArchiveUrls (StellarCoreConfig doc) = [] \<or> NetworkPassphrase (StellarCoreConfig doc) = ''''
         \<or> CaptiveCoreTomlPath (StellarCoreConfig doc) = ''''"
    | (custom) "Network (StellarCoreConfig doc) = ''''"
        "HistoryArchiveUrls (StellarCoreConfig doc) \<noteq> []" "NetworkPassphrase (StellarCoreConfig doc) \<noteq> ''''"
        "CaptiveCoreTomlPath (StellarCoreConfig doc) \<noteq> ''''"
    | (pubnet) "Network (StellarCoreConfig doc) = Pubnet"
    | (testnet) "Network (StellarCoreConfig doc) = Testnet"
    | (unknown) "Network (StellarCoreConfig doc) \<noteq> ''''" "Network (StellarCoreConfig doc) \<noteq> Pubnet"
        "Network (StellarCoreConfig doc) \<noteq> Testnet"
    by blast
  then show ?thesis
  proof cases
    case incomplete
    from processToml_incomplete [OF load parse incomplete] incomplete show ?thesis by blast
  next
    case custom
    from processToml_custom [OF load parse custom rd] custom show ?thesis
      by (cases err) simp_all
  next
    case pubnet
    from processToml_pubnet [OF load parse pubnet rd] pubnet show ?thesis
      by (cases err) (simp_all add: Pubnet_def)
  next
    case testnet
    from processToml_testnet [OF load parse testnet rd] testnet show ?thesis
      by (cases err) (simp_all add: Testnet_def)
  next
    case unknown
    from processToml_unknown [OF load parse unknown] unknown show ?thesis by simp
  qed
qed

theorem incomplete_network_config_iff_witness:
  "snd (processToml example_env example_presets ''incomplete.toml'' example_config)
     = Some IncompleteNetworkConfig
   \<and> snd (processToml example_env example_presets ''config.toml'' example_config) = None"
proof -
  have l1: "LoadFile example_env ''incomplete.toml'' = Inr example_incomplete_doc"
    and l2: "LoadFile example_env ''config.toml'' = Inr example_config"
    by (simp_all add: example_env_def)
  have p1: "Unmarshal example_env example_incomplete_doc example_config = (example_incomplete_doc, None)"
    and p2: "Unmarshal example_env example_config example_config = (example_config, None)"
    by (simp_all add: example_env_def example_incomplete_doc_def)
  have n: "Network (StellarCoreConfig example_config) = Testnet"
    by (simp add: example_config_def Testnet_def)
  have r: "ReadFile example_env (CaptiveCoreTomlPath (StellarCoreConfig example_config)) = ([], Some ''no such file'')"
    by (simp add: example_config_def example_env_def)
  have ok: "snd (processToml example_env example_presets ''config.toml'' example_config) = None"
    by (simp add: processToml_testnet [OF l2 p2 n r]) (simp add: example_config_def)
  show ?thesis
    using ok incomplete_network_config_iff [OF l1 p1, of example_presets]
          incomplete_network_config_iff [OF l2 p2, of example_presets]
    by (simp add: example_incomplete_doc_def example_config_def)
qed

section \<open>Properties of the engine-configuration builder\<close>

lemma binary_path_after:
  "\<not> (StellarCoreBinaryPath (StellarCoreConfig config) = '''' \<and> coreBinFromPath = '''') \<Longrightarrow>
   StellarCoreBinaryPath (StellarCoreConfig (fst (GenerateCaptiveCoreConfig mk dflt coreBinFromPath config)))
     = (if StellarCoreBinaryPath (StellarCoreConfig config) = '''' then coreBinFromPath
        else StellarCoreBinaryPath (StellarCoreConfig config))"
  by (cases "StellarCoreBinaryPath (StellarCoreConfig config) = ''''")
     (auto simp add: GenerateCaptiveCoreConfig_def setCoreVersionInfo_def Let_def
           split: prod.splits option.splits sum.splits)

lemma override_result:
  "StellarCoreBinaryPath (StellarCoreConfig config) = '''' \<Longrightarrow> coreBinFromPath \<noteq> '''' \<Longrightarrow>
   (case snd (GenerateCaptiveCoreConfig mk dflt coreBinFromPath config) of
      Inr cc \<Rightarrow> BinaryPath cc = coreBinFromPath
    | Inl e \<Rightarrow> e \<noteq> NoBinaryPath)"
  by (auto simp add: GenerateCaptiveCoreConfig_def setCoreVersionInfo_def Let_def
           split: prod.splits option.splits sum.splits)

text \<open>
  C9. The builder fails with "no binary path" exactly when the configured binary path
  and the override argument are both empty. When the configured path is empty and the
  override is set, the override is stored as the configured path, and an engine
  configuration that is produced carries the override as its binary path (a failure in
  that case is a different error).
\<close>

theorem no_binary_path_iff:
  "(snd (GenerateCaptiveCoreConfig mk dflt coreBinFromPath config) = Inl NoBinaryPath
      \<longleftrightarrow> StellarCoreBinaryPath (StellarCoreConfig config) = '''' \<and> coreBinFromPath = '''')
   \<and> (StellarCoreBinaryPath (StellarCoreConfig config) = '''' \<and> coreBinFromPath \<noteq> '''' \<longrightarrow>
        StellarCoreBinaryPath (StellarCoreConfig (fst (GenerateCaptiveCoreConfig mk dflt coreBinFromPath config)))
          = coreBinFromPath
        \<and> (case snd (GenerateCaptiveCoreConfig mk dflt coreBinFromPath config) of
              Inr cc \<Rightarrow> BinaryPath cc = coreBinFromPath
            | Inl e \<Rightarrow> e \<noteq> NoBinaryPath))"
proof -
  have a: "snd (GenerateCaptiveCoreConfig mk dflt coreBinFromPath config) = Inl NoBinaryPath
      \<longleftrightarrow> StellarCoreBinaryPath (StellarCoreConfig config) = '''' \<and> coreBinFromPath = ''''"
    by (auto simp add: GenerateCaptiveCoreConfig_def Let_def split: prod.splits option.splits sum.splits)
  have b: "StellarCoreBinaryPath (StellarCoreConfig config) = '''' \<and> coreBinFromPath \<noteq> '''' \<longrightarrow>
      StellarCoreBinaryPath (StellarCoreConfig (fst (GenerateCaptiveCoreConfig mk dflt coreBinFromPath config)))
          = coreBinFromPath"
    using binary_path_after [of config coreBinFromPath mk dflt] by simp
  have c: "StellarCoreBinaryPath (StellarCoreConfig config) = '''' \<and> coreBinFromPath \<noteq> '''' \<longrightarrow>
      (case snd (GenerateCaptiveCoreConfig mk dflt coreBinFromPath config) of
              Inr cc \<Rightarrow> BinaryPath cc = coreBinFromPath
            | Inl e \<Rightarrow> e \<noteq> NoBinaryPath)"
    using override_result [of config coreBinFromPath mk dflt] by blast
  from a b c show ?thesis by blast
qed

theorem no_binary_path_iff_witness:
  "snd (GenerateCaptiveCoreConfig example_NewCaptiveCoreTomlFromData 64 '''' example_config) = Inl NoBinaryPath
   \<and> snd (GenerateCaptiveCoreConfig example_NewCaptiveCoreTomlFromData 64 ''/usr/bin/stellar-core'' example_config)
       = Inr \<lparr>BinaryPath = ''/usr/bin/stellar-core'', NetworkPassphrase_c = '''', HistoryArchiveURLs_c = [],
              CheckpointFrequency_c = 64, Toml = [], UserAgent_c = '''', UseDB_c = True, StoragePath_c = ''''\<rparr>
   \<and> StellarCoreBinaryPath (StellarCoreConfig
         (fst (GenerateCaptiveCoreConfig example_NewCaptiveCoreTomlFromData 64 ''/usr/bin/stellar-core'' example_config)))
       = ''/usr/bin/stellar-core''"
proof -
  have r: "snd (GenerateCaptiveCoreConfig example_NewCaptiveCoreTomlFromData 64 ''/usr/bin/stellar-core'' example_config)
       = Inr \<lparr>BinaryPath = ''/usr/bin/stellar-core'', NetworkPassphrase_c = '''', HistoryArchiveURLs_c = [],
              CheckpointFrequency_c = 64, Toml = [], UserAgent_c = '''', UseDB_c = True, StoragePath_c = ''''\<rparr>"
    by (simp add: GenerateCaptiveCoreConfig_def setCoreVersionInfo_def example_NewCaptiveCoreTomlFromData_def
        example_config_def)
  have e: "StellarCoreBinaryPath (StellarCoreConfig example_config) = ''''"
    by (simp add: example_config_def)
  show ?thesis
    using r e
      no_binary_path_iff [of example_NewCaptiveCoreTomlFromData 64 "''''" example_config]
      no_binary_path_iff [of example_NewCaptiveCoreTomlFromData 64 "''/usr/bin/stellar-core''" example_config]
    by simp
qed

end
